theory Spec2Isabelle
  imports Main "HOL-Library.Word"
begin

section \<open>The host reactor of the naming client\<close>

text \<open>
  A shallow embedding of \<^verbatim>\<open>clients/naming_client/host_reator.go\<close>: the cache of
  service snapshots, the update pipeline \<^verbatim>\<open>ProcessServiceJson\<close>, the lookup
  \<^verbatim>\<open>GetServiceInfo\<close> with its guarded fetch \<^verbatim>\<open>updateServiceNow\<close>, the
  pass-through \<^verbatim>\<open>GetAllServiceInfo\<close>, and the staleness test of the refresh loop
  \<^verbatim>\<open>asyncUpdateService\<close>.
\<close>

subsection \<open>Data\<close>

type_synonym uint64 = "64 word"
type_synonym uint32 = "32 word"

text \<open>A Go \<^verbatim>\<open>error\<close> value is its message; \<^verbatim>\<open>nil\<close> is \<open>None\<close>.\<close>

type_synonym error = string

text \<open>
  \<^verbatim>\<open>model.Service\<close>, with the fields this file reads. The instance descriptor
  \<^verbatim>\<open>model.Instance\<close> is the type parameter \<open>'i\<close>. A Go slice is either
  \<^verbatim>\<open>nil\<close> (\<open>None\<close>) or a sequence (\<open>Some xs\<close>, where \<open>xs\<close> may be empty).
\<close>

record 'i Service =
  Name :: string
  Clusters :: string
  CacheMillis :: uint64
  Hosts :: "'i list option"

text \<open>The zero value \<^verbatim>\<open>model.Service{}\<close>.\<close>

definition Service_zero :: "'i Service" where
  "Service_zero = \<lparr>Name = [], Clusters = [], CacheMillis = 0, Hosts = None\<rparr>"

text \<open>\<^verbatim>\<open>len\<close> of a slice: a \<^verbatim>\<open>nil\<close> slice has length 0.\<close>

definition len :: "'a list option \<Rightarrow> nat" where
  "len s = (case s of None \<Rightarrow> 0 | Some xs \<Rightarrow> length xs)"

text \<open>
  \<^verbatim>\<open>reflect.DeepEqual\<close> on two slices of instance descriptors: a \<^verbatim>\<open>nil\<close> slice
  equals only a \<^verbatim>\<open>nil\<close> slice, and two sequences are equal when they have the same
  length and their elements are equal position by position.
\<close>

fun DeepEqual :: "'i list option \<Rightarrow> 'i list option \<Rightarrow> bool" where
  "DeepEqual None None = True"
| "DeepEqual (Some xs) (Some ys) = list_all2 (=) xs ys"
| "DeepEqual _ _ = False"

text \<open>
  What the reactor does to the outside world, in the order it does it: the queries sent
  through \<^verbatim>\<open>serviceProxy\<close>, the lines handed to \<^verbatim>\<open>log\<close> (by their format
  string), \<^verbatim>\<open>cache.WriteServicesToFile\<close> and \<^verbatim>\<open>subCallback.ServiceChanged\<close>.
\<close>

datatype 'i event =
    QueryListCall string string int bool
  | GetAllServiceInfoListCall string string uint32 uint32
  | LogPrint string
  | WriteServicesToFile "'i Service" string
  | ServiceChanged "'i Service"

text \<open>
  The struct \<^verbatim>\<open>HostReactor\<close>. The two \<^verbatim>\<open>cache.ConcurrentMap\<close>s are maps from the
  cache key; \<open>lock\<close> is the state of the mutex (\<open>True\<close> when held); \<open>port\<close> is
  \<^verbatim>\<open>pushReceiver.port\<close>; \<open>trace\<close> records the events so far.
\<close>

record 'i HostReactor =
  serviceInfoMap :: "string \<rightharpoonup> 'i Service"
  cacheDir :: string
  updateThreadNum :: int
  port :: int
  updateTimeMap :: "string \<rightharpoonup> uint64"
  updateCacheWhenEmpty :: bool
  lock :: bool
  trace :: "'i event list"

text \<open>
  The functions this file calls and does not define: the two queries of
  \<^verbatim>\<open>NamingProxy\<close>, \<^verbatim>\<open>utils.JsonToService\<close> (\<open>None\<close> for a \<^verbatim>\<open>nil\<close> pointer),
  \<^verbatim>\<open>utils.GetServiceCacheKey\<close>, and \<^verbatim>\<open>json.Unmarshal\<close> into a
  \<^verbatim>\<open>model.ServiceList\<close> (the type parameter \<open>'l\<close>, with its zero value): the decoder
  takes the payload and the target and gives back the target as it leaves it, with its
  error. A query gives back its result and its error, as in Go.
\<close>

record ('i, 'l) collaborators =
  QueryList :: "string \<Rightarrow> string \<Rightarrow> int \<Rightarrow> bool \<Rightarrow> string \<times> error option"
  GetAllServiceInfoList :: "string \<Rightarrow> string \<Rightarrow> uint32 \<Rightarrow> uint32 \<Rightarrow> string \<times> error option"
  JsonToService :: "string \<Rightarrow> 'i Service option"
  GetServiceCacheKey :: "string \<Rightarrow> string \<Rightarrow> string"
  json_Unmarshal :: "string \<Rightarrow> 'l \<Rightarrow> 'l \<times> error option"
  ServiceList_zero :: 'l

definition emit :: "'i event list \<Rightarrow> 'i HostReactor \<Rightarrow> 'i HostReactor" where
  "emit es hr = hr\<lparr>trace := trace hr @ es\<rparr>"

subsection \<open>The update pipeline\<close>

text \<open>
  \<^verbatim>\<open>ProcessServiceJson\<close>. The argument \<open>now\<close> is the value of
  \<^verbatim>\<open>uint64(utils.CurrentMillis())\<close> read at the timestamp write. The last test of
  the source, \<^verbatim>\<open>!ok || ok && !reflect.DeepEqual(...)\<close>, is the case distinction on
  the old snapshot: its two logging branches are the two cases.
\<close>

definition ProcessServiceJson ::
  "('i, 'l) collaborators \<Rightarrow> uint64 \<Rightarrow> 'i HostReactor \<Rightarrow> string \<Rightarrow> 'i HostReactor" where
  "ProcessServiceJson env now hr result =
     (case JsonToService env result of
        None \<Rightarrow> hr
      | Some service \<Rightarrow>
          let cacheKey = GetServiceCacheKey env (Name service) (Clusters service);
              oldDomain = serviceInfoMap hr cacheKey;
              ok = (oldDomain \<noteq> None)
          in if ok \<and> \<not> updateCacheWhenEmpty hr
                \<and> (Hosts service = None \<or> len (Hosts service) = 0)
             then emit [LogPrint ''[ERROR]:do not have useful host, ignore it, name:%s''] hr
             else
               let hr1 = hr\<lparr>updateTimeMap := (updateTimeMap hr)(cacheKey \<mapsto> now)\<rparr>;
                   hr2 = hr1\<lparr>serviceInfoMap := (serviceInfoMap hr1)(cacheKey \<mapsto> service)\<rparr>
               in (case oldDomain of
                     None \<Rightarrow>
                       emit [LogPrint (''[INFO] service not found in cache '' @ cacheKey),
                             WriteServicesToFile service (cacheDir hr2),
                             ServiceChanged service] hr2
                   | Some old \<Rightarrow>
                       if \<not> DeepEqual (Hosts service) (Hosts old)
                       then emit [LogPrint ''[INFO] service key:%s was updated to:%s'',
                                  WriteServicesToFile service (cacheDir hr2),
                                  ServiceChanged service] hr2
                       else hr2))"

subsection \<open>The guarded fetch and the lookup\<close>

text \<open>
  \<^verbatim>\<open>updateServiceNow\<close>. \<^verbatim>\<open>Lock\<close> on a mutex that is held waits; run alone, the
  call then never returns, which is the result \<open>None\<close>. The two early returns leave
  the function without reaching \<^verbatim>\<open>Unlock\<close>.
\<close>

definition updateServiceNow ::
  "('i, 'l) collaborators \<Rightarrow> uint64 \<Rightarrow> 'i HostReactor \<Rightarrow> string \<Rightarrow> string \<Rightarrow> string
     \<Rightarrow> 'i HostReactor option" where
  "updateServiceNow env now hr serviceName clusters key =
     (if lock hr then None
      else
        let hr1 = hr\<lparr>lock := True\<rparr>
        in (case serviceInfoMap hr1 key of
              None \<Rightarrow>
                let (result, err) = QueryList env serviceName clusters (port hr1) False;
                    hr2 = emit [QueryListCall serviceName clusters (port hr1) False] hr1
                in if err \<noteq> None
                   then Some (emit [LogPrint ''[ERROR]:query list return error!servieName:%s cluster:%s  err:%s''] hr2)
                   else if result = []
                   then Some (emit [LogPrint ''[ERROR]:query list is empty!servieName:%s cluster:%s''] hr2)
                   else Some ((ProcessServiceJson env now hr2 result)\<lparr>lock := False\<rparr>)
            | Some _ \<Rightarrow> Some (hr1\<lparr>lock := False\<rparr>)))"

text \<open>
  \<^verbatim>\<open>GetServiceInfo\<close>: the state after the call, the snapshot and the error; \<open>None\<close>
  when the call waits for the mutex.
\<close>

definition GetServiceInfo ::
  "('i, 'l) collaborators \<Rightarrow> uint64 \<Rightarrow> 'i HostReactor \<Rightarrow> string \<Rightarrow> string
     \<Rightarrow> ('i HostReactor \<times> 'i Service \<times> error option) option" where
  "GetServiceInfo env now hr serviceName clusters =
     (let key = GetServiceCacheKey env serviceName clusters
      in case serviceInfoMap hr key of
           Some cacheService \<Rightarrow> Some (hr, cacheService, None)
         | None \<Rightarrow>
             (case updateServiceNow env now hr serviceName clusters key of
                None \<Rightarrow> None
              | Some hr' \<Rightarrow>
                  (case serviceInfoMap hr' key of
                     None \<Rightarrow> Some (hr', Service_zero, Some ''get service info failed'')
                   | Some cacheService \<Rightarrow> Some (hr', cacheService, None))))"

text \<open>\<^verbatim>\<open>GetAllServiceInfo\<close>: the state after the call and the list returned.\<close>

definition GetAllServiceInfo ::
  "('i, 'l) collaborators \<Rightarrow> 'i HostReactor \<Rightarrow> string \<Rightarrow> string \<Rightarrow> uint32 \<Rightarrow> uint32
     \<Rightarrow> 'i HostReactor \<times> 'l" where
  "GetAllServiceInfo env hr nameSpace groupName pageNo pageSize =
     (let data = ServiceList_zero env;
          (result, err) = GetAllServiceInfoList env nameSpace groupName pageNo pageSize;
          hr1 = emit [GetAllServiceInfoListCall nameSpace groupName pageNo pageSize] hr
      in if err \<noteq> None
         then (emit [LogPrint ''[ERROR]:query all services info return error!nameSpace:%s groupName:%s pageNo:%d, pageSize:%d err:%s''] hr1, data)
         else if result = []
         then (emit [LogPrint ''[ERROR]:query all services info is empty!nameSpace:%s  groupName:%s pageNo:%d, pageSize:%d''] hr1, data)
         else
           let (data', err') = json_Unmarshal env result data
           in if err' \<noteq> None
              then (emit [LogPrint ''[ERROR]: the result of quering all services info json.Unmarshal error !nameSpace:%s groupName:%s pageNo:%d, pageSize:%d''] hr1, data')
              else (hr1, data'))"

subsection \<open>The scheduled refresh\<close>

text \<open>\<^verbatim>\<open>asyncUpdateServiceNow\<close>: the fetch of the refresh loop, without the mutex.\<close>

definition asyncUpdateServiceNow ::
  "('i, 'l) collaborators \<Rightarrow> uint64 \<Rightarrow> 'i HostReactor \<Rightarrow> string \<Rightarrow> string \<Rightarrow> 'i HostReactor" where
  "asyncUpdateServiceNow env now hr serviceName clusters =
     (let (result, err) = QueryList env serviceName clusters (port hr) False;
          hr1 = emit [QueryListCall serviceName clusters (port hr) False] hr
      in if err \<noteq> None
         then emit [LogPrint ''[ERROR]:query list return error!servieName:%s cluster:%s  err:%s''] hr1
         else if result = []
         then emit [LogPrint ''[ERROR]:query list is empty!servieName:%s cluster:%s''] hr1
         else ProcessServiceJson env now hr1 result)"

text \<open>
  One pass of the inner loop of \<^verbatim>\<open>asyncUpdateService\<close> over the values of
  \<^verbatim>\<open>serviceInfoMap.Items()\<close>, in the order the loop meets them. The clock is read
  once for each entry, so each entry comes with its reading. The result lists the
  fetches started, as the arguments of \<^verbatim>\<open>asyncUpdateServiceNow\<close>. The semaphore
  delays a start until a slot is free; it does not decide which entries are fetched.
\<close>

fun asyncUpdateService_pass ::
  "('i, 'l) collaborators \<Rightarrow> 'i HostReactor \<Rightarrow> (uint64 \<times> 'i Service) list
     \<Rightarrow> (string \<times> string) list" where
  "asyncUpdateService_pass env hr [] = []"
| "asyncUpdateService_pass env hr ((now, service) # rest) =
     (let lastRefTime =
            (case updateTimeMap hr (GetServiceCacheKey env (Name service) (Clusters service)) of
               None \<Rightarrow> 0
             | Some t \<Rightarrow> t)
      in if now - lastRefTime > CacheMillis service
         then (Name service, Clusters service) # asyncUpdateService_pass env hr rest
         else asyncUpdateService_pass env hr rest)"

text \<open>
  The refresh time of a key as the design states it: the time recorded for the key, and 0
  for a key with no recorded time.
\<close>

definition lastRefreshTimestamp :: "'i HostReactor \<Rightarrow> string \<Rightarrow> uint64" where
  "lastRefreshTimestamp hr key = (case updateTimeMap hr key of None \<Rightarrow> 0 | Some t \<Rightarrow> t)"

subsection \<open>Concrete collaborators for the examples\<close>

text \<open>
  A key function that joins name and clusters with \<^verbatim>\<open>@@\<close>, a decoder that knows
  three payloads, and a registry that gives every query the one answer it is built
  with.
\<close>

definition svc :: "string \<Rightarrow> nat list option \<Rightarrow> nat Service" where
  "svc n hs = \<lparr>Name = n, Clusters = [], CacheMillis = 1000, Hosts = hs\<rparr>"

definition decode0 :: "string \<Rightarrow> nat Service option" where
  "decode0 p =
     (if p = ''A12'' then Some (svc ''A'' (Some [1, 2]))
      else if p = ''A21'' then Some (svc ''A'' (Some [2, 1]))
      else if p = ''A0'' then Some (svc ''A'' (Some []))
      else None)"

text \<open>
  A decoder for the service list, the list of names standing for the whole value. It
  follows \<^verbatim>\<open>encoding/json\<close>: a payload that is not JSON is refused before the
  target is written; a payload with a field of the wrong type has that field skipped,
  the other fields stored, and the type error returned.
\<close>

definition unmarshal0 :: "string \<Rightarrow> string list \<Rightarrow> string list \<times> error option" where
  "unmarshal0 p d =
     (if p = ''ok'' then ([''A''], None)
      else if p = ''mismatch'' then ([''A''], Some ''json: cannot unmarshal string into Go struct field'')
      else (d, Some ''invalid character''))"

definition env0 :: "string \<times> error option \<Rightarrow> (nat, string list) collaborators" where
  "env0 answer =
     \<lparr>QueryList = (\<lambda>n c p f. answer),
      GetAllServiceInfoList = (\<lambda>ns g pn ps. answer),
      JsonToService = decode0,
      GetServiceCacheKey = (\<lambda>n c. n @ ''@@'' @ c),
      json_Unmarshal = unmarshal0,
      ServiceList_zero = []\<rparr>"

definition hr0 :: "(string \<rightharpoonup> nat Service) \<Rightarrow> bool \<Rightarrow> nat HostReactor" where
  "hr0 m e =
     \<lparr>serviceInfoMap = m, cacheDir = ''cache'', updateThreadNum = 20, port = 0,
      updateTimeMap = Map.empty, updateCacheWhenEmpty = e, lock = False, trace = []\<rparr>"

section \<open>Properties\<close>

lemma DeepEqual_iff: "DeepEqual a b \<longleftrightarrow> a = b"
  by (cases a; cases b) (simp_all add: list.rel_eq)

lemma len_0_iff: "len h = 0 \<longleftrightarrow> h = None \<or> h = Some []"
  by (cases h) (simp_all add: len_def)

text \<open>
  C1. When a snapshot exists for the candidate's key, \<^verbatim>\<open>updateCacheWhenEmpty\<close> is
  false and the candidate has no hosts, \<^verbatim>\<open>ProcessServiceJson\<close> leaves both maps as
  they are, and the only event is the diagnostic: nothing is written to file and the
  subscriber is not called.
\<close>

theorem ProcessServiceJson_rejects_empty:
  assumes "JsonToService env result = Some service"
    and "serviceInfoMap hr (GetServiceCacheKey env (Name service) (Clusters service)) = Some old"
    and "\<not> updateCacheWhenEmpty hr"
    and "Hosts service = None \<or> len (Hosts service) = 0"
  shows "serviceInfoMap (ProcessServiceJson env now hr result) = serviceInfoMap hr
    \<and> updateTimeMap (ProcessServiceJson env now hr result) = updateTimeMap hr
    \<and> trace (ProcessServiceJson env now hr result) =
        trace hr @ [LogPrint ''[ERROR]:do not have useful host, ignore it, name:%s'']"
  using assms by (auto simp: ProcessServiceJson_def emit_def Let_def)

theorem ProcessServiceJson_rejects_empty_witness:
  "JsonToService (env0 ([], None)) ''A0'' = Some (svc ''A'' (Some []))
   \<and> serviceInfoMap (hr0 [''A@@'' \<mapsto> svc ''A'' (Some [1, 2])] False) ''A@@''
       = Some (svc ''A'' (Some [1, 2]))
   \<and> \<not> updateCacheWhenEmpty (hr0 [''A@@'' \<mapsto> svc ''A'' (Some [1, 2])] False)
   \<and> len (Hosts (svc ''A'' (Some []))) = 0
   \<and> serviceInfoMap (ProcessServiceJson (env0 ([], None)) 5
        (hr0 [''A@@'' \<mapsto> svc ''A'' (Some [1, 2])] False) ''A0'')
       = [''A@@'' \<mapsto> svc ''A'' (Some [1, 2])]
   \<and> updateTimeMap (ProcessServiceJson (env0 ([], None)) 5
        (hr0 [''A@@'' \<mapsto> svc ''A'' (Some [1, 2])] False) ''A0'') = Map.empty
   \<and> trace (ProcessServiceJson (env0 ([], None)) 5
        (hr0 [''A@@'' \<mapsto> svc ''A'' (Some [1, 2])] False) ''A0'')
       = [LogPrint ''[ERROR]:do not have useful host, ignore it, name:%s'']"
  using ProcessServiceJson_rejects_empty
    [of "env0 ([], None)" "''A0''" "svc ''A'' (Some [])"
        "hr0 [''A@@'' \<mapsto> svc ''A'' (Some [1, 2])] False" "svc ''A'' (Some [1, 2])" 5]
  by (simp add: env0_def decode0_def svc_def hr0_def len_def)


text \<open>
  C2. The guard is not released on every path. On a cold cache, with the mutex free,
  a query that returns an error leaves \<^verbatim>\<open>updateServiceNow\<close> through the first early
  return, and a query that returns the empty payload through the second: in both the
  call returns with the mutex still held.
\<close>

theorem updateServiceNow_early_return_keeps_lock:
  "map_option lock
     (updateServiceNow (env0 ([], Some ''timeout'')) 5 (hr0 Map.empty False) ''A'' [] ''A@@'')
     = Some True
   \<and> map_option lock
     (updateServiceNow (env0 ([], None)) 5 (hr0 Map.empty False) ''A'' [] ''A@@'')
     = Some True"
  by (simp add: updateServiceNow_def env0_def hr0_def emit_def)

text \<open>
  The paths of \<^verbatim>\<open>updateServiceNow\<close>, one by one: the mutex is held at the return
  exactly when the key was absent and the query failed or answered nothing.
\<close>

lemma ProcessServiceJson_lock: "lock (ProcessServiceJson env now hr result) = lock hr"
  by (simp add: ProcessServiceJson_def emit_def Let_def split: option.splits)

lemma updateServiceNow_lock_at_return:
  assumes "updateServiceNow env now hr serviceName clusters key = Some hr'"
  shows "lock hr' \<longleftrightarrow>
     serviceInfoMap hr key = None
     \<and> (snd (QueryList env serviceName clusters (port hr) False) \<noteq> None
        \<or> fst (QueryList env serviceName clusters (port hr) False) = [])"
  using assms
  by (auto simp: updateServiceNow_def emit_def Let_def split: if_splits option.splits prod.splits)

text \<open>
  C3 as stated fails: a candidate with the hosts of the stored snapshot in another order
  is written to file and announced.
\<close>

theorem ProcessServiceJson_reordered_hosts_notify:
  "set [1, 2] = set [2, 1 :: nat]
   \<and> JsonToService (env0 ([], None)) ''A21'' = Some (svc ''A'' (Some [2, 1]))
   \<and> trace (ProcessServiceJson (env0 ([], None)) 5
        (hr0 [''A@@'' \<mapsto> svc ''A'' (Some [1, 2])] False) ''A21'')
       = [LogPrint ''[INFO] service key:%s was updated to:%s'',
          WriteServicesToFile (svc ''A'' (Some [2, 1])) ''cache'',
          ServiceChanged (svc ''A'' (Some [2, 1]))]"
  by (auto simp: ProcessServiceJson_def env0_def decode0_def svc_def hr0_def len_def emit_def Let_def)

text \<open>
  C3, amended. Change detection compares the host lists as sequences: for a stored
  snapshot and an accepted candidate, nothing is written to file and the subscriber is
  not called exactly when the two host lists are equal, element by element in the same
  order (and both \<^verbatim>\<open>nil\<close> or both not); otherwise the candidate is written and
  announced.
\<close>

theorem ProcessServiceJson_change_detection:
  assumes "JsonToService env result = Some service"
    and "key = GetServiceCacheKey env (Name service) (Clusters service)"
    and "serviceInfoMap hr key = Some old"
    and "updateCacheWhenEmpty hr \<or> 0 < len (Hosts service)"
  shows "trace (ProcessServiceJson env now hr result) =
     (if Hosts service = Hosts old then trace hr
      else trace hr @ [LogPrint ''[INFO] service key:%s was updated to:%s'',
                       WriteServicesToFile service (cacheDir hr),
                       ServiceChanged service])"
  using assms
  by (auto simp: ProcessServiceJson_def emit_def Let_def DeepEqual_iff len_def
           split: option.splits)

theorem ProcessServiceJson_change_detection_witness:
  "JsonToService (env0 ([], None)) ''A12'' = Some (svc ''A'' (Some [1, 2]))
   \<and> serviceInfoMap (hr0 [''A@@'' \<mapsto> svc ''A'' (Some [1, 2])] False) ''A@@''
       = Some (svc ''A'' (Some [1, 2]))
   \<and> 0 < len (Hosts (svc ''A'' (Some [1, 2])))
   \<and> trace (ProcessServiceJson (env0 ([], None)) 5
        (hr0 [''A@@'' \<mapsto> svc ''A'' (Some [1, 2])] False) ''A12'') = []"
  using ProcessServiceJson_change_detection
    [of "env0 ([], None)" "''A12''" "svc ''A'' (Some [1, 2])" "''A@@''"
        "hr0 [''A@@'' \<mapsto> svc ''A'' (Some [1, 2])] False" "svc ''A'' (Some [1, 2])" 5]
  by (simp add: env0_def decode0_def svc_def hr0_def len_def)




text \<open>
  C5. A fetch that fails changes nothing. When the query returns an error or the empty
  payload, or its payload decodes to no snapshot, \<^verbatim>\<open>asyncUpdateServiceNow\<close> and
  \<^verbatim>\<open>updateServiceNow\<close> leave both maps as they are, and the only events are the
  query and its diagnostic: nothing is written to file and the subscriber is not called.
  (\<^verbatim>\<open>updateServiceNow\<close> sends no query at all when the key is stored, and does
  nothing while the mutex is held.) \<^verbatim>\<open>ProcessServiceJson\<close> on a payload that decodes
  to no snapshot returns the state it was given.
\<close>

theorem failed_fetch_changes_nothing:
  assumes "QueryList env serviceName clusters (port hr) False = (result, err)"
    and "err \<noteq> None \<or> result = [] \<or> JsonToService env result = None"
    and "diagnostic =
       (if err \<noteq> None
        then [LogPrint ''[ERROR]:query list return error!servieName:%s cluster:%s  err:%s'']
        else if result = []
        then [LogPrint ''[ERROR]:query list is empty!servieName:%s cluster:%s'']
        else [])"
  shows "serviceInfoMap (asyncUpdateServiceNow env now hr serviceName clusters) = serviceInfoMap hr
    \<and> updateTimeMap (asyncUpdateServiceNow env now hr serviceName clusters) = updateTimeMap hr
    \<and> trace (asyncUpdateServiceNow env now hr serviceName clusters) =
        trace hr @ QueryListCall serviceName clusters (port hr) False # diagnostic
    \<and> (case updateServiceNow env now hr serviceName clusters key of
         None \<Rightarrow> lock hr
       | Some hr' \<Rightarrow>
           serviceInfoMap hr' = serviceInfoMap hr
           \<and> updateTimeMap hr' = updateTimeMap hr
           \<and> trace hr' =
               (if serviceInfoMap hr key = None
                then trace hr @ QueryListCall serviceName clusters (port hr) False # diagnostic
                else trace hr))
    \<and> (JsonToService env result = None \<longrightarrow> ProcessServiceJson env now hr result = hr)"
proof -
  have decode: "JsonToService env result = None \<Longrightarrow> ProcessServiceJson env now h result = h" for h
    by (simp add: ProcessServiceJson_def)
  have async: "asyncUpdateServiceNow env now hr serviceName clusters =
      emit (QueryListCall serviceName clusters (port hr) False # diagnostic) hr"
    using assms by (auto simp: asyncUpdateServiceNow_def emit_def decode)
  have guarded: "updateServiceNow env now hr serviceName clusters key =
      (if lock hr then None
       else if serviceInfoMap hr key = None
       then Some ((emit (QueryListCall serviceName clusters (port hr) False # diagnostic) hr)
                   \<lparr>lock := err \<noteq> None \<or> result = []\<rparr>)
       else Some hr)"
    using assms
    by (auto simp: updateServiceNow_def emit_def decode split: option.splits)
  show ?thesis
    by (simp add: async guarded emit_def decode)
qed

theorem failed_fetch_changes_nothing_witness:
  "QueryList (env0 ([], Some ''timeout'')) ''A'' [] (port (hr0 Map.empty False)) False
     = ([], Some ''timeout'')
   \<and> serviceInfoMap (asyncUpdateServiceNow (env0 ([], Some ''timeout'')) 5
        (hr0 Map.empty False) ''A'' []) = Map.empty
   \<and> updateTimeMap (asyncUpdateServiceNow (env0 ([], Some ''timeout'')) 5
        (hr0 Map.empty False) ''A'' []) = Map.empty
   \<and> trace (asyncUpdateServiceNow (env0 ([], Some ''timeout'')) 5
        (hr0 Map.empty False) ''A'' [])
       = [QueryListCall ''A'' [] 0 False,
          LogPrint ''[ERROR]:query list return error!servieName:%s cluster:%s  err:%s'']
   \<and> map_option trace (updateServiceNow (env0 ([], Some ''timeout'')) 5
        (hr0 Map.empty False) ''A'' [] ''A@@'')
       = Some [QueryListCall ''A'' [] 0 False,
          LogPrint ''[ERROR]:query list return error!servieName:%s cluster:%s  err:%s'']
   \<and> JsonToService (env0 ([], Some ''timeout'')) [] = None
   \<and> ProcessServiceJson (env0 ([], Some ''timeout'')) 5 (hr0 Map.empty False) []
       = hr0 Map.empty False"
  using failed_fetch_changes_nothing
    [of "env0 ([], Some ''timeout'')" "''A''" "[]" "hr0 Map.empty False" "[]" "Some ''timeout''"
        "[LogPrint ''[ERROR]:query list return error!servieName:%s cluster:%s  err:%s'']"
        5 "''A@@''"]
  by (auto simp: env0_def decode0_def hr0_def split: option.splits)

text \<open>
  The test of the refresh loop in integers: the \<^verbatim>\<open>uint64\<close> difference is the
  difference of the two values modulo \<open>2 ^ 64\<close>, and it is the difference itself when
  the recorded time is not after the clock reading.
\<close>

lemma due_uint:
  fixes now lastRefTime window :: uint64
  shows "now - lastRefTime > window \<longleftrightarrow>
     (uint now - uint lastRefTime) mod 2 ^ 64 > uint window"
  by (simp add: word_less_def uint_word_ariths)

lemma due_uint_no_wrap:
  fixes now lastRefTime window :: uint64
  assumes "lastRefTime \<le> now"
  shows "now - lastRefTime > window \<longleftrightarrow> uint now - uint lastRefTime > uint window"
  using assms by (simp add: word_less_def uint_sub_lem word_le_def)

text \<open>
  C6 as stated fails, twice. An entry with no recorded time is not always due: with the
  clock at 1000 and \<^verbatim>\<open>CacheMillis\<close> 1000 no fetch is started. And an entry whose
  elapsed time is at most its \<^verbatim>\<open>CacheMillis\<close> can be fetched: with the clock at 1000
  and the recorded time 4000 the elapsed time is negative, the \<^verbatim>\<open>uint64\<close>
  difference wraps around, and the fetch is started.
\<close>

theorem asyncUpdateService_pass_not_elapsed_test:
  "updateTimeMap (hr0 Map.empty False) ''A@@'' = None
   \<and> asyncUpdateService_pass (env0 ([], None)) (hr0 Map.empty False)
        [(1000, svc ''A'' (Some [1, 2]))] = []
   \<and> (1000 :: int) - 4000 \<le> uint (CacheMillis (svc ''A'' (Some [1, 2])))
   \<and> asyncUpdateService_pass (env0 ([], None))
        ((hr0 Map.empty False)\<lparr>updateTimeMap := [''A@@'' \<mapsto> 4000]\<rparr>)
        [(1000, svc ''A'' (Some [1, 2]))] = [(''A'', [])]"
  by (simp add: env0_def hr0_def svc_def)

text \<open>
  C6, amended. In one pass of the refresh loop, the fetches started are those of the
  entries for which the clock reading minus the key's refresh time (0 when none is
  recorded), taken modulo \<open>2 ^ 64\<close>, is greater than the entry's \<^verbatim>\<open>CacheMillis\<close>, in
  the order of the pass. When no entry's recorded time is after its clock reading, these
  are the entries whose elapsed time is greater than \<^verbatim>\<open>CacheMillis\<close>: an entry with
  elapsed time at most \<^verbatim>\<open>CacheMillis\<close> starts no fetch. Entries with no recorded
  time are fetched exactly when the clock reading itself is greater than their
  \<^verbatim>\<open>CacheMillis\<close>.
\<close>

theorem asyncUpdateService_pass_due:
  fixes items :: "(uint64 \<times> 'i Service) list"
  assumes "recorded = (\<lambda>service. lastRefreshTimestamp hr
             (GetServiceCacheKey env (Name service) (Clusters service)))"
    and "started = (\<lambda>due. map (\<lambda>(now, service). (Name service, Clusters service))
             (filter due items))"
  shows "asyncUpdateService_pass env hr items =
       started (\<lambda>(now, service).
          (uint now - uint (recorded service)) mod 2 ^ 64 > uint (CacheMillis service))
    \<and> ((\<forall>(now, service) \<in> set items. recorded service \<le> now) \<longrightarrow>
        asyncUpdateService_pass env hr items =
          started (\<lambda>(now, service).
            uint now - uint (recorded service) > uint (CacheMillis service)))
    \<and> ((\<forall>(now, service) \<in> set items.
           updateTimeMap hr (GetServiceCacheKey env (Name service) (Clusters service)) = None) \<longrightarrow>
        asyncUpdateService_pass env hr items =
          started (\<lambda>(now, service). uint now > uint (CacheMillis service)))"
proof -
  have pass: "asyncUpdateService_pass env hr items =
      started (\<lambda>(now, service). now - recorded service > CacheMillis service)"
    unfolding assms by (induction items) (auto simp: lastRefreshTimestamp_def Let_def)
  have wrapped: "asyncUpdateService_pass env hr items =
      started (\<lambda>(now, service).
         (uint now - uint (recorded service)) mod 2 ^ 64 > uint (CacheMillis service))"
    unfolding pass by (simp add: due_uint)
  have elapsed: "asyncUpdateService_pass env hr items =
      started (\<lambda>(now, service). uint now - uint (recorded service) > uint (CacheMillis service))"
    if "\<forall>(now, service) \<in> set items. recorded service \<le> now"
  proof -
    have "filter (\<lambda>(now, service). now - recorded service > CacheMillis service) items =
        filter (\<lambda>(now, service). uint now - uint (recorded service) > uint (CacheMillis service)) items"
      using that by (intro filter_cong refl) (auto simp: due_uint_no_wrap)
    then show ?thesis
      unfolding pass by (simp add: assms(2))
  qed
  have fresh: "asyncUpdateService_pass env hr items =
      started (\<lambda>(now, service). uint now > uint (CacheMillis service))"
    if "\<forall>(now, service) \<in> set items.
          updateTimeMap hr (GetServiceCacheKey env (Name service) (Clusters service)) = None"
  proof -
    have "filter (\<lambda>(now, service). now - recorded service > CacheMillis service) items =
        filter (\<lambda>(now, service). uint now > uint (CacheMillis service)) items"
      using that
      by (intro filter_cong refl)
         (auto simp: assms(1) lastRefreshTimestamp_def word_less_def)
    then show ?thesis
      unfolding pass by (simp add: assms(2))
  qed
  show ?thesis
    using wrapped elapsed fresh by blast
qed

theorem asyncUpdateService_pass_due_witness:
  "lastRefreshTimestamp ((hr0 Map.empty False)\<lparr>updateTimeMap := [''B@@'' \<mapsto> 4000]\<rparr>) ''A@@''
      \<le> 5000
   \<and> lastRefreshTimestamp ((hr0 Map.empty False)\<lparr>updateTimeMap := [''B@@'' \<mapsto> 4000]\<rparr>) ''B@@''
      \<le> 5000
   \<and> asyncUpdateService_pass (env0 ([], None))
      ((hr0 Map.empty False)\<lparr>updateTimeMap := [''B@@'' \<mapsto> 4000]\<rparr>)
      [(5000, svc ''A'' (Some [1, 2])), (5000, svc ''B'' None), (5001, svc ''B'' None)]
     = [(''A'', []), (''B'', [])]
   \<and> updateTimeMap (hr0 Map.empty False) ''A@@'' = None
   \<and> asyncUpdateService_pass (env0 ([], None)) (hr0 Map.empty False)
      [(1000, svc ''A'' (Some [1, 2])), (1001, svc ''A'' (Some [1, 2]))]
     = [(''A'', [])]"
  using asyncUpdateService_pass_due
    [OF refl refl, of "env0 ([], None)"
       "(hr0 Map.empty False)\<lparr>updateTimeMap := [''B@@'' \<mapsto> 4000]\<rparr>"
       "[(5000, svc ''A'' (Some [1, 2])), (5000, svc ''B'' None), (5001, svc ''B'' None)]"]
    asyncUpdateService_pass_due
    [OF refl refl, of "env0 ([], None)" "hr0 Map.empty False"
       "[(1000, svc ''A'' (Some [1, 2])), (1001, svc ''A'' (Some [1, 2]))]"]
  by (simp add: lastRefreshTimestamp_def env0_def hr0_def svc_def)

text \<open>
  C7. The lookup does not always return the error when the key stays absent. On a cold
  cache with a registry that answers with an error, the first \<^verbatim>\<open>GetServiceInfo\<close>
  returns \<^verbatim>\<open>get service info failed\<close> and leaves the mutex held, through the early
  return of \<^verbatim>\<open>updateServiceNow\<close>; the second \<^verbatim>\<open>GetServiceInfo\<close> for the same
  key, still absent, waits for the mutex and never returns.
\<close>

theorem GetServiceInfo_second_lookup_never_returns:
  "map_option (snd \<circ> snd)
       (GetServiceInfo (env0 ([], Some ''timeout'')) 5 (hr0 Map.empty False) ''A'' [])
     = Some (Some ''get service info failed'')
   \<and> (case GetServiceInfo (env0 ([], Some ''timeout'')) 5 (hr0 Map.empty False) ''A'' [] of
         None \<Rightarrow> False
       | Some (hr1, cacheService, err) \<Rightarrow>
           serviceInfoMap hr1 ''A@@'' = None
           \<and> lock hr1
           \<and> GetServiceInfo (env0 ([], Some ''timeout'')) 6 hr1 ''A'' [] = None)"
  by (simp add: GetServiceInfo_def updateServiceNow_def env0_def hr0_def emit_def)

text \<open>
  The lookup, path by path. On a key that is stored \<^verbatim>\<open>GetServiceInfo\<close> returns the
  stored snapshot and no error, and the state it was given: no query is sent. On a key
  that is not stored, with the mutex free, it runs \<^verbatim>\<open>updateServiceNow\<close> and then
  returns the error exactly when the key is still not stored, and otherwise the snapshot
  now stored. With the mutex held, a call for a key that is not stored waits.
\<close>

lemma GetServiceInfo_paths:
  assumes "key = GetServiceCacheKey env serviceName clusters"
  shows "(\<forall>s. serviceInfoMap hr key = Some s \<longrightarrow>
            GetServiceInfo env now hr serviceName clusters = Some (hr, s, None))
    \<and> (serviceInfoMap hr key = None \<and> \<not> lock hr \<longrightarrow>
         (\<exists>hr'. updateServiceNow env now hr serviceName clusters key = Some hr'
            \<and> GetServiceInfo env now hr serviceName clusters =
                 Some (case serviceInfoMap hr' key of
                         None \<Rightarrow> (hr', Service_zero, Some ''get service info failed'')
                       | Some s \<Rightarrow> (hr', s, None))))
    \<and> (serviceInfoMap hr key = None \<and> lock hr \<longrightarrow>
         GetServiceInfo env now hr serviceName clusters = None)"
proof -
  have returns: "\<not> lock hr \<Longrightarrow> \<exists>hr'. updateServiceNow env now hr serviceName clusters key = Some hr'"
    by (auto simp: updateServiceNow_def Let_def split: option.splits prod.splits)
  have waits: "lock hr \<Longrightarrow> updateServiceNow env now hr serviceName clusters key = None"
    by (simp add: updateServiceNow_def)
  show ?thesis
    using assms returns waits
    by (auto simp: GetServiceInfo_def Let_def split: option.splits)
qed

lemma GetServiceInfo_paths_examples:
  "serviceInfoMap (hr0 [''A@@'' \<mapsto> svc ''A'' (Some [1, 2])] False) ''A@@''
     = Some (svc ''A'' (Some [1, 2]))
   \<and> GetServiceInfo (env0 ([], Some ''timeout'')) 5
        (hr0 [''A@@'' \<mapsto> svc ''A'' (Some [1, 2])] False) ''A'' []
       = Some (hr0 [''A@@'' \<mapsto> svc ''A'' (Some [1, 2])] False, svc ''A'' (Some [1, 2]), None)
   \<and> serviceInfoMap (hr0 Map.empty False) ''A@@'' = None
   \<and> \<not> lock (hr0 Map.empty False)
   \<and> map_option snd (GetServiceInfo (env0 (''A12'', None)) 5 (hr0 Map.empty False) ''A'' [])
       = Some (svc ''A'' (Some [1, 2]), None)
   \<and> map_option snd (GetServiceInfo (env0 ([], Some ''timeout'')) 5 (hr0 Map.empty False) ''A'' [])
       = Some (Service_zero, Some ''get service info failed'')"
  using GetServiceInfo_paths
    [of "''A@@''" "env0 ([], Some ''timeout'')" "''A''" "[]"
        "hr0 [''A@@'' \<mapsto> svc ''A'' (Some [1, 2])] False" 5]
    GetServiceInfo_paths
    [of "''A@@''" "env0 (''A12'', None)" "''A''" "[]" "hr0 Map.empty False" 5]
    GetServiceInfo_paths
    [of "''A@@''" "env0 ([], Some ''timeout'')" "''A''" "[]" "hr0 Map.empty False" 5]
  by (auto simp: env0_def decode0_def hr0_def svc_def updateServiceNow_def
        ProcessServiceJson_def emit_def len_def Let_def)

text \<open>
  C9 as stated fails: a payload whose decoding stores a part of the list and then
  reports an error comes back as that part, not as the empty list.
\<close>

theorem GetAllServiceInfo_decode_error_not_empty:
  "GetAllServiceInfoList (env0 (''mismatch'', None)) ''ns'' ''g'' 1 10 = (''mismatch'', None)
   \<and> snd (json_Unmarshal (env0 (''mismatch'', None)) ''mismatch''
            (ServiceList_zero (env0 (''mismatch'', None))))
       = Some ''json: cannot unmarshal string into Go struct field''
   \<and> ServiceList_zero (env0 (''mismatch'', None)) = []
   \<and> snd (GetAllServiceInfo (env0 (''mismatch'', None)) (hr0 Map.empty False) ''ns'' ''g'' 1 10)
       = [''A'']"
  by (simp add: GetAllServiceInfo_def env0_def unmarshal0_def emit_def)

text \<open>
  C9, amended. \<^verbatim>\<open>GetAllServiceInfo\<close> has no error in its result. When the query
  returns an error or the empty string it returns the empty list value; otherwise it
  returns the list as the decoder leaves it, whether the decoder reports an error or not.
  It writes neither map.
\<close>

theorem GetAllServiceInfo_result:
  assumes "GetAllServiceInfoList env nameSpace groupName pageNo pageSize = (result, err)"
  shows "snd (GetAllServiceInfo env hr nameSpace groupName pageNo pageSize) =
      (if err \<noteq> None \<or> result = [] then ServiceList_zero env
       else fst (json_Unmarshal env result (ServiceList_zero env)))
    \<and> serviceInfoMap (fst (GetAllServiceInfo env hr nameSpace groupName pageNo pageSize))
        = serviceInfoMap hr
    \<and> updateTimeMap (fst (GetAllServiceInfo env hr nameSpace groupName pageNo pageSize))
        = updateTimeMap hr"
  using assms
  by (auto simp: GetAllServiceInfo_def emit_def Let_def split: prod.splits)

theorem GetAllServiceInfo_result_witness:
  "GetAllServiceInfoList (env0 ([], Some ''timeout'')) ''ns'' ''g'' 1 10 = ([], Some ''timeout'')
   \<and> snd (GetAllServiceInfo (env0 ([], Some ''timeout'')) (hr0 Map.empty False) ''ns'' ''g'' 1 10)
       = []
   \<and> GetAllServiceInfoList (env0 (''ok'', None)) ''ns'' ''g'' 1 10 = (''ok'', None)
   \<and> snd (GetAllServiceInfo (env0 (''ok'', None)) (hr0 Map.empty False) ''ns'' ''g'' 1 10)
       = [''A'']
   \<and> serviceInfoMap (fst (GetAllServiceInfo (env0 (''ok'', None)) (hr0 Map.empty False)
        ''ns'' ''g'' 1 10)) = Map.empty"
  using GetAllServiceInfo_result
    [of "env0 ([], Some ''timeout'')" "''ns''" "''g''" 1 10 "[]" "Some ''timeout''"
        "hr0 Map.empty False"]
    GetAllServiceInfo_result
    [of "env0 (''ok'', None)" "''ns''" "''g''" 1 10 "''ok''" None "hr0 Map.empty False"]
  by (simp add: env0_def hr0_def unmarshal0_def)

text \<open>
  C10. A candidate with no hosts whose key is not stored is accepted whatever
  \<^verbatim>\<open>updateCacheWhenEmpty\<close> says: it is stored with the clock reading, written to
  file and announced, and a \<^verbatim>\<open>GetServiceInfo\<close> for its name and clusters afterwards
  returns it, with no hosts and no error, without a query.
\<close>

theorem ProcessServiceJson_first_empty_snapshot:
  assumes "JsonToService env result = Some service"
    and "key = GetServiceCacheKey env (Name service) (Clusters service)"
    and "serviceInfoMap hr key = None"
    and "len (Hosts service) = 0"
    and "hr' = ProcessServiceJson env now hr result"
  shows "serviceInfoMap hr' key = Some service
    \<and> updateTimeMap hr' key = Some now
    \<and> trace hr' = trace hr @ [LogPrint (''[INFO] service not found in cache '' @ key),
                              WriteServicesToFile service (cacheDir hr),
                              ServiceChanged service]
    \<and> GetServiceInfo env later hr' (Name service) (Clusters service) = Some (hr', service, None)
    \<and> len (Hosts service) = 0"
proof -
  have stored: "serviceInfoMap hr' key = Some service"
    using assms by (simp add: ProcessServiceJson_def emit_def Let_def)
  have time: "updateTimeMap hr' key = Some now"
    using assms by (simp add: ProcessServiceJson_def emit_def Let_def)
  have events: "trace hr' = trace hr @ [LogPrint (''[INFO] service not found in cache '' @ key),
      WriteServicesToFile service (cacheDir hr), ServiceChanged service]"
    using assms by (simp add: ProcessServiceJson_def emit_def Let_def)
  have lookup: "GetServiceInfo env later hr' (Name service) (Clusters service)
      = Some (hr', service, None)"
    using stored assms(2) by (simp add: GetServiceInfo_def Let_def)
  show ?thesis
    using stored time events lookup assms(4) by simp
qed

theorem ProcessServiceJson_first_empty_snapshot_witness:
  "JsonToService (env0 ([], None)) ''A0'' = Some (svc ''A'' (Some []))
   \<and> serviceInfoMap (hr0 Map.empty False) ''A@@'' = None
   \<and> \<not> updateCacheWhenEmpty (hr0 Map.empty False)
   \<and> len (Hosts (svc ''A'' (Some []))) = 0
   \<and> trace (ProcessServiceJson (env0 ([], None)) 5 (hr0 Map.empty False) ''A0'')
       = [LogPrint ''[INFO] service not found in cache A@@'',
          WriteServicesToFile (svc ''A'' (Some [])) ''cache'',
          ServiceChanged (svc ''A'' (Some []))]
   \<and> GetServiceInfo (env0 ([], None)) 6
        (ProcessServiceJson (env0 ([], None)) 5 (hr0 Map.empty False) ''A0'') ''A'' []
       = Some (ProcessServiceJson (env0 ([], None)) 5 (hr0 Map.empty False) ''A0'',
               svc ''A'' (Some []), None)"
  using ProcessServiceJson_first_empty_snapshot
    [of "env0 ([], None)" "''A0''" "svc ''A'' (Some [])" "''A@@''" "hr0 Map.empty False"
        "ProcessServiceJson (env0 ([], None)) 5 (hr0 Map.empty False) ''A0''" 5 6]
  by (simp add: env0_def decode0_def svc_def hr0_def len_def)

end
